theory Spec2Isabelle
  imports Complex_Main
begin

chapter \<open>The identity-gated voting workflow of secure-vote-face-chain\<close>

text \<open>
  A shallow embedding of the workflow hook \<open>useVoting\<close>, the singleton \<open>VotingContract\<close>,
  the face verification hook \<open>useFaceVerification\<close> and the component \<open>OTPVerification\<close>.
  React state is a record; a handler is a function from the state to the new state and
  the list of its effects; a callback given to \<open>setTimeout\<close> is a value that is fired
  later.
\<close>

section \<open>Data model (utils/VotingContract.ts)\<close>

text \<open>
  The interfaces of the source. A JavaScript \<open>number\<close> used as an identifier, a counter
  or a step is an \<open>int\<close>; a \<open>Date\<close> is its millisecond time stamp.
\<close>

record Candidate =
  candidate_id :: int
  candidate_name :: string
  party :: string
  voteCount :: int

record Election =
  election_id :: int
  title :: string
  description :: string
  startDate :: int
  endDate :: int
  candidates :: "Candidate list"
  isActive :: bool

record VoteTransaction =
  tx_transactionHash :: string
  blockNumber :: int
  timestamp :: int
  voter :: string
  electionId :: int
  candidateId :: int

text \<open>The authenticated user of \<open>useAuth\<close>: an object with an \<open>id\<close>, or \<open>null\<close>.\<close>

record User =
  user_id :: string

text \<open>
  A value thrown by a call (a rejected promise): an \<open>Error\<close> object with its message,
  or any other value.
\<close>

datatype thrown = JsError string | JsNonError

text \<open>
  What a handler does to the outside, in the order in which it does it: toasts
  (title, description, variant), console output, the calls into the voting services and
  the callbacks \<open>onVerified\<close> and \<open>onError\<close> handed to a component.
\<close>

datatype variant = Default | Destructive

datatype effect =
    Toast string string variant
  | ConsoleError string
  | ConsoleLog string
  | ConsoleWarn string
  | CallHasUserVoted string int
  | CallCastVote string int int
  | OnVerified
  | OnError

section \<open>The singleton VotingContract\<close>

text \<open>
  The class has one private static field \<open>instance\<close> and a private constructor that
  allocates a new ElectionService and a new VotingService. Objects are addresses into a
  store; \<open>fresh\<close> is the next unused address. The static field is \<open>None\<close> until the
  first call of \<open>getInstance\<close>.
\<close>

type_synonym addr = nat

record VotingContract =
  electionService :: addr
  votingService :: addr

record contract_store =
  instance_field :: "addr option"
  contracts :: "addr \<rightharpoonup> VotingContract"
  fresh :: addr

definition new_VotingContract :: "contract_store \<Rightarrow> addr \<times> contract_store" where
  "new_VotingContract st =
     (let es = fresh st; vs = fresh st + 1; this = fresh st + 2
      in (this, st\<lparr>contracts := (contracts st)(this \<mapsto> \<lparr>electionService = es, votingService = vs\<rparr>),
                    fresh := fresh st + 3\<rparr>))"

definition getInstance :: "contract_store \<Rightarrow> addr \<times> contract_store" where
  "getInstance st =
     (case instance_field st of
        None \<Rightarrow> (let (a, st') = new_VotingContract st in (a, st'\<lparr>instance_field := Some a\<rparr>))
      | Some a \<Rightarrow> (a, st))"

text \<open>\<open>n\<close> successive calls of \<open>getInstance\<close>: the instances returned, and the store left.\<close>

fun getInstance_calls :: "nat \<Rightarrow> contract_store \<Rightarrow> addr list \<times> contract_store" where
  "getInstance_calls 0 st = ([], st)"
| "getInstance_calls (Suc n) st =
     (let (a, st1) = getInstance st; (as, st2) = getInstance_calls n st1 in (a # as, st2))"

text \<open>
  A store is in order when the static field, once set, points at a contract. The store
  of a starting process, with the field unset, is in order.
\<close>

definition store_ok :: "contract_store \<Rightarrow> bool" where
  "store_ok st = (case instance_field st of None \<Rightarrow> True | Some a \<Rightarrow> contracts st a \<noteq> None)"

text \<open>
  ElectionService and VotingService are called through the contract, which only
  delegates. The two services are not part of this development, so their behaviour is a parameter:
  each call takes the ledger (whatever the services store, of any type \<open>'l\<close>) and returns
  what the promise settles to, a thrown value or a result, with the ledger it leaves.
\<close>

record 'l services =
  es_hasUserVoted :: "'l \<Rightarrow> string \<Rightarrow> int \<Rightarrow> (thrown + bool) \<times> 'l"
  vs_castVote :: "'l \<Rightarrow> string \<Rightarrow> int \<Rightarrow> int \<Rightarrow> (thrown + VoteTransaction) \<times> 'l"

definition castVote :: "'l services \<Rightarrow> 'l \<Rightarrow> string \<Rightarrow> int \<Rightarrow> int \<Rightarrow> (thrown + VoteTransaction) \<times> 'l" where
  "castVote svc l userId eId cId = vs_castVote svc l userId eId cId"

definition hasUserVoted :: "'l services \<Rightarrow> 'l \<Rightarrow> string \<Rightarrow> int \<Rightarrow> (thrown + bool) \<times> 'l" where
  "hasUserVoted svc l userId eId = es_hasUserVoted svc l userId eId"

section \<open>The voting workflow (hook useVoting)\<close>

record voting_state =
  step :: int
  isLoading :: bool
  elections :: "Election list"
  selectedElection :: "Election option"
  selectedCandidate :: "Candidate option"
  transactionHash :: "string option"

text \<open>The initial values of the \<open>useState\<close> calls.\<close>

definition initial_voting_state :: voting_state where
  "initial_voting_state =
     \<lparr>step = 1, isLoading = True, elections = [], selectedElection = None,
      selectedCandidate = None, transactionHash = None\<rparr>"

text \<open>What the hook's handlers act on besides its own state: the singleton and the ledger.\<close>

record 'l world =
  contract :: contract_store
  ledger :: 'l

definition handleFaceVerificationSuccess :: "voting_state \<Rightarrow> voting_state \<times> effect list" where
  "handleFaceVerificationSuccess s =
     (s\<lparr>step := 3\<rparr>,
      [Toast ''Face Verification Successful'' ''Your identity has been verified.'' Default])"

definition handleFaceVerificationError :: "voting_state \<Rightarrow> voting_state \<times> effect list" where
  "handleFaceVerificationError s =
     (s\<lparr>step := 1\<rparr>,
      [Toast ''Face Verification Failed''
         ''We couldn't verify your identity. Please try again.'' Destructive])"

definition handleOTPVerificationSuccess :: "voting_state \<Rightarrow> voting_state \<times> effect list" where
  "handleOTPVerificationSuccess s =
     (s\<lparr>step := 4\<rparr>,
      [Toast ''OTP Verification Successful'' ''You can now access the voting system.'' Default])"

definition handleOTPVerificationError :: "voting_state \<Rightarrow> voting_state \<times> effect list" where
  "handleOTPVerificationError s =
     (s, [Toast ''OTP Verification Failed''
            ''The OTP you entered is incorrect. Please try again.'' Destructive])"

definition handleSelectElection :: "Election \<Rightarrow> voting_state \<Rightarrow> voting_state" where
  "handleSelectElection election s = s\<lparr>selectedElection := Some election, step := 5\<rparr>"

definition handleSelectCandidate :: "Candidate \<Rightarrow> voting_state \<Rightarrow> voting_state" where
  "handleSelectCandidate candidate s = s\<lparr>selectedCandidate := Some candidate\<rparr>"

definition setStep :: "int \<Rightarrow> voting_state \<Rightarrow> voting_state" where
  "setStep n s = s\<lparr>step := n\<rparr>"

text \<open>
  The \<open>catch\<close> block of \<open>handleCastVote\<close>, followed by its \<open>finally\<close>: the error is logged
  and shown, with the message of an \<open>Error\<close> and a fixed text for any other thrown value.
\<close>

definition cast_error_message :: "thrown \<Rightarrow> string" where
  "cast_error_message err =
     (case err of JsError m \<Rightarrow> m | JsNonError \<Rightarrow> ''Failed to cast vote. Please try again.'')"

definition catch_cast_error :: "thrown \<Rightarrow> voting_state \<Rightarrow> voting_state \<times> effect list" where
  "catch_cast_error err s =
     (s\<lparr>isLoading := False\<rparr>,
      [ConsoleError ''Error casting vote:'', Toast ''Error'' (cast_error_message err) Destructive])"

text \<open>
  \<open>handleCastVote\<close>. The guard returns at once unless an election and a candidate are
  selected and a user is signed in. Then: loading on, the singleton, the \<open>hasUserVoted\<close>
  lookup (toast and return when it says yes), the \<open>castVote\<close> call, the hash stored,
  step 6; any thrown value goes to the \<open>catch\<close> block; \<open>finally\<close> sets loading off.
  The promise the handler returns never rejects, so the result is the new state, the
  new world and the effects. The handler is taken to run to its end with no other
  handler in between.
\<close>

definition handleCastVote ::
  "'l services \<Rightarrow> User option \<Rightarrow> 'l world \<Rightarrow> voting_state \<Rightarrow> voting_state \<times> 'l world \<times> effect list" where
  "handleCastVote svc user w s =
     (case selectedElection s of None \<Rightarrow> (s, w, []) | Some e \<Rightarrow>
      case selectedCandidate s of None \<Rightarrow> (s, w, []) | Some c \<Rightarrow>
      case user of None \<Rightarrow> (s, w, []) | Some u \<Rightarrow>
       (let s1 = s\<lparr>isLoading := True\<rparr>;
            (votingContract, cs) = getInstance (contract w);
            w1 = w\<lparr>contract := cs\<rparr>;
            (hv, l1) = hasUserVoted svc (ledger w1) (user_id u) (election_id e);
            w2 = w1\<lparr>ledger := l1\<rparr>;
            lookup = [CallHasUserVoted (user_id u) (election_id e)]
        in case hv of
             Inl err \<Rightarrow>
               (let (s2, fx) = catch_cast_error err s1 in (s2, w2, lookup @ fx))
           | Inr True \<Rightarrow>
               (s1\<lparr>isLoading := False\<rparr>, w2,
                lookup @ [Toast ''Already Voted''
                            ''You have already cast your vote in this election.'' Destructive])
           | Inr False \<Rightarrow>
               (let (cv, l2) = castVote svc (ledger w2) (user_id u) (election_id e) (candidate_id c);
                    w3 = w2\<lparr>ledger := l2\<rparr>;
                    calls = lookup @ [CallCastVote (user_id u) (election_id e) (candidate_id c)]
                in case cv of
                     Inl err \<Rightarrow>
                       (let (s2, fx) = catch_cast_error err s1 in (s2, w3, calls @ fx))
                   | Inr transaction \<Rightarrow>
                       (s1\<lparr>transactionHash := Some (tx_transactionHash transaction),
                           step := 6, isLoading := False\<rparr>, w3,
                        calls @ [Toast ''Vote Cast Successfully''
                                   ''Your vote has been recorded on the blockchain.'' Default]))))"

text \<open>
  The effect that loads the elections when the hook mounts; \<open>res\<close> is what
  \<open>getElections\<close> settles to.
\<close>

definition fetchElections :: "thrown + Election list \<Rightarrow> voting_state \<Rightarrow> voting_state \<times> effect list" where
  "fetchElections res s =
     (case res of
        Inr electionList \<Rightarrow> (s\<lparr>elections := electionList, isLoading := False\<rparr>, [])
      | Inl err \<Rightarrow>
          (s\<lparr>isLoading := False\<rparr>,
           [ConsoleError ''Error fetching elections:'',
            Toast ''Error'' ''Failed to load elections. Please try again.'' Destructive]))"

text \<open>
  Everything the hook returns to its caller that acts on the state: \<open>setStep\<close> and the
  eight handlers. \<open>invoke\<close> runs one of them.
\<close>

datatype workflow_input =
    SetStep int
  | FaceVerificationSuccess
  | FaceVerificationError
  | OTPVerificationSuccess
  | OTPVerificationError
  | SelectElection Election
  | SelectCandidate Candidate
  | CastVote

fun is_factor_signal :: "workflow_input \<Rightarrow> bool" where
  "is_factor_signal FaceVerificationSuccess = True"
| "is_factor_signal FaceVerificationError = True"
| "is_factor_signal OTPVerificationSuccess = True"
| "is_factor_signal OTPVerificationError = True"
| "is_factor_signal (SetStep n) = False"
| "is_factor_signal (SelectElection e) = False"
| "is_factor_signal (SelectCandidate c) = False"
| "is_factor_signal CastVote = False"

fun invoke ::
  "'l services \<Rightarrow> User option \<Rightarrow> workflow_input \<Rightarrow> 'l world \<Rightarrow> voting_state
     \<Rightarrow> voting_state \<times> 'l world \<times> effect list" where
  "invoke svc user (SetStep n) w s = (setStep n s, w, [])"
| "invoke svc user FaceVerificationSuccess w s =
     (let (s', fx) = handleFaceVerificationSuccess s in (s', w, fx))"
| "invoke svc user FaceVerificationError w s =
     (let (s', fx) = handleFaceVerificationError s in (s', w, fx))"
| "invoke svc user OTPVerificationSuccess w s =
     (let (s', fx) = handleOTPVerificationSuccess s in (s', w, fx))"
| "invoke svc user OTPVerificationError w s =
     (let (s', fx) = handleOTPVerificationError s in (s', w, fx))"
| "invoke svc user (SelectElection e) w s = (handleSelectElection e s, w, [])"
| "invoke svc user (SelectCandidate c) w s = (handleSelectCandidate c s, w, [])"
| "invoke svc user CastVote w s = handleCastVote svc user w s"

section \<open>Face verification (hook useFaceVerification)\<close>

datatype status = Idle | Success | Failure

record face_state =
  isCaptured :: bool
  isVerifying :: bool
  verificationStatus :: status
  referenceImage :: "string option"

definition initial_face_state :: face_state where
  "initial_face_state =
     \<lparr>isCaptured = False, isVerifying = False, verificationStatus = Idle, referenceImage = None\<rparr>"

text \<open>
  The test \<open>if (x)\<close> on a value of type \<open>string | null\<close>: \<open>null\<close> and the empty string
  are falsy.
\<close>

definition truthy :: "string option \<Rightarrow> bool" where
  "truthy x = (case x of None \<Rightarrow> False | Some v \<Rightarrow> v \<noteq> [])"

text \<open>
  The effect that loads the registered face image: nothing happens without a user id;
  the query throws, reports an error, or returns a row whose \<open>face_image_url\<close> may be
  missing.
\<close>

datatype query_result = QueryThrows | QueryError | QueryData "string option"

definition fetchUserFace :: "User option \<Rightarrow> query_result \<Rightarrow> face_state \<Rightarrow> face_state \<times> effect list" where
  "fetchUserFace user res s =
     (case user of None \<Rightarrow> (s, []) | Some u \<Rightarrow>
        if user_id u = [] then (s, [])
        else (case res of
                QueryData url \<Rightarrow>
                  (if truthy url then
                     (s\<lparr>referenceImage := url\<rparr>,
                      [ConsoleLog ''Loaded reference face image for comparison''])
                   else (s, [ConsoleWarn ''No reference face image found for this user'']))
              | QueryError \<Rightarrow> (s, [ConsoleError ''Error fetching user face image:''])
              | QueryThrows \<Rightarrow> (s, [ConsoleError ''Error in fetchUserFace:''])))"

text \<open>
  The number literals of \<open>simulateFaceComparison\<close> are IEEE doubles; each constant below is
  the exact value of the double the literal denotes. A draw of \<open>Math.random()\<close> is a
  double in \<open>[0, 1)\<close>, here any rational, and \<open><\<close> on doubles compares their values. The
  sums and products that give \<open>confidence\<close> are rounded to a double; the rounding is the
  parameter \<open>fl\<close>.
\<close>

definition double_0_7 :: rat where "double_0_7 = 3152519739159347 / 4503599627370496"
definition double_0_8 :: rat where "double_0_8 = 3602879701896397 / 4503599627370496"
definition double_0_15 :: rat where "double_0_15 = 5404319552844595 / 36028797018963968"
definition double_0_5 :: rat where "double_0_5 = 1 / 2"
definition double_0_2 :: rat where "double_0_2 = 3602879701896397 / 18014398509481984"
definition double_0_3 :: rat where "double_0_3 = 5404319552844595 / 18014398509481984"

record comparison =
  verified :: bool
  confidence :: rat

text \<open>
  \<open>r1\<close> and \<open>r2\<close> are the two draws the function makes, in order. The promise always
  resolves (after three seconds), so the result is the value it resolves to.
\<close>

definition simulateFaceComparison ::
  "(rat \<Rightarrow> rat) \<Rightarrow> string \<Rightarrow> string option \<Rightarrow> rat \<Rightarrow> rat \<Rightarrow> comparison" where
  "simulateFaceComparison fl capturedImage reference r1 r2 =
     (if truthy reference then
        (let isSuccess = (r1 < double_0_7)
         in \<lparr>verified = isSuccess,
             confidence = (if isSuccess then fl (double_0_8 + fl (r2 * double_0_15))
                           else fl (double_0_5 + fl (r2 * double_0_2)))\<rparr>)
      else
        (let isSuccess = (r1 < double_0_8)
         in \<lparr>verified = isSuccess,
             confidence = (if isSuccess then fl (double_0_7 + fl (r2 * double_0_2))
                           else fl (double_0_3 + fl (r2 * double_0_3)))\<rparr>))"

text \<open>
  The callbacks \<open>verifyFace\<close> hands to \<open>setTimeout\<close>, with their delay in milliseconds:
  the reset to a new capture and the call of \<open>onVerified\<close>.
\<close>

datatype face_timer = ResetCapture | InvokeOnVerified

definition fire_face_timer :: "face_timer \<Rightarrow> face_state \<Rightarrow> face_state \<times> effect list" where
  "fire_face_timer t s =
     (case t of
        ResetCapture \<Rightarrow> (s\<lparr>isCaptured := False, isVerifying := False, verificationStatus := Idle\<rparr>, [])
      | InvokeOnVerified \<Rightarrow> (s, [OnVerified]))"

fun fire_face_timers :: "(nat \<times> face_timer) list \<Rightarrow> face_state \<Rightarrow> face_state \<times> effect list" where
  "fire_face_timers [] s = (s, [])"
| "fire_face_timers ((d, t) # ts) s =
     (let (s1, fx1) = fire_face_timer t s; (s2, fx2) = fire_face_timers ts s1 in (s2, fx1 @ fx2))"

text \<open>
  \<open>verifyFace\<close>, up to the moment its last state update is made: the state, the toasts and
  the timers it has set. The \<open>.catch\<close> branch is not reachable, since the promise of
  \<open>simulateFaceComparison\<close> never rejects.
\<close>

definition verifyFace ::
  "(rat \<Rightarrow> rat) \<Rightarrow> User option \<Rightarrow> string \<Rightarrow> rat \<Rightarrow> rat \<Rightarrow> face_state
     \<Rightarrow> face_state \<times> effect list \<times> (nat \<times> face_timer) list" where
  "verifyFace fl user capturedImageData r1 r2 s =
     (let s1 = s\<lparr>isVerifying := True\<rparr>
      in if \<not> truthy (referenceImage s) \<and> user \<noteq> None then
           (s1\<lparr>verificationStatus := Failure\<rparr>,
            [Toast ''Reference Image Missing''
               ''No reference face image found. Please complete registration first.'' Destructive],
            [(2000, ResetCapture)])
         else
           (let result = simulateFaceComparison fl capturedImageData (referenceImage s) r1 r2
            in if verified result then
                 (s1\<lparr>verificationStatus := Success\<rparr>,
                  [Toast ''Face Verified'' ''Your identity has been successfully verified.'' Default],
                  [(1500, InvokeOnVerified)])
               else
                 (s1\<lparr>verificationStatus := Failure\<rparr>,
                  [Toast ''Verification Failed''
                     ''Face doesn't match our records. Please try again.'' Destructive],
                  [(2000, ResetCapture)])))"

text \<open>A whole attempt: \<open>verifyFace\<close> and then its timers, with all effects in order.\<close>

definition face_attempt ::
  "(rat \<Rightarrow> rat) \<Rightarrow> User option \<Rightarrow> string \<Rightarrow> rat \<Rightarrow> rat \<Rightarrow> face_state \<Rightarrow> face_state \<times> effect list" where
  "face_attempt fl user capturedImageData r1 r2 s =
     (let (s1, fx1, ts) = verifyFace fl user capturedImageData r1 r2 s;
          (s2, fx2) = fire_face_timers ts s1
      in (s2, fx1 @ fx2))"

definition retryCapture :: "face_state \<Rightarrow> face_state" where
  "retryCapture s = s\<lparr>isCaptured := False, verificationStatus := Idle\<rparr>"

section \<open>One-time code (component OTPVerification)\<close>

record otp_state =
  otp :: string
  otp_isVerifying :: bool
  generatedOtp :: string
  resendDisabled :: bool
  countdown :: int
  autoFill :: bool

definition initial_otp_state :: otp_state where
  "initial_otp_state =
     \<lparr>otp = [], otp_isVerifying = False, generatedOtp = [], resendDisabled = False,
      countdown = 30, autoFill = False\<rparr>"

text \<open>
  \<open>generateOTP\<close>: \<open>newOtp\<close> is the string \<open>Math.floor(1000 + Math.random() * 9000).toString()\<close>,
  computed in floating point and taken as given. The function also restarts the
  one-second interval whose tick is \<open>countdown_tick\<close>.
\<close>

definition generateOTP :: "string \<Rightarrow> otp_state \<Rightarrow> otp_state \<times> effect list" where
  "generateOTP newOtp s =
     (s\<lparr>generatedOtp := newOtp, autoFill := False, resendDisabled := True, countdown := 30\<rparr>,
      [ConsoleLog ''Generated OTP:'',
       Toast ''OTP Generated'' (''Your verification code is: '' @ newOtp) Default])"

definition countdown_tick :: "otp_state \<Rightarrow> otp_state" where
  "countdown_tick s =
     (if countdown s \<le> 1 then s\<lparr>resendDisabled := False, countdown := 0\<rparr>
      else s\<lparr>countdown := countdown s - 1\<rparr>)"

text \<open>
  The checks handed to \<open>setTimeout\<close> by \<open>handleVerify\<close> and by \<open>handleOTPChange\<close>. Each
  closes over the entered and the generated code of the moment it was set.
\<close>

datatype otp_timer = VerifyCheck string string | ChangeCheck string string

definition fire_otp_timer :: "otp_timer \<Rightarrow> otp_state \<Rightarrow> otp_state \<times> effect list" where
  "fire_otp_timer t s =
     (case t of
        VerifyCheck entered generated \<Rightarrow>
          (if entered = generated then
             (s\<lparr>otp_isVerifying := False\<rparr>,
              [Toast ''OTP Verified'' ''Your identity has been verified successfully'' Default,
               OnVerified])
           else
             (s\<lparr>otp := [], otp_isVerifying := False\<rparr>,
              [Toast ''Invalid OTP''
                 ''The code you entered doesn't match. Please try again.'' Destructive,
               OnError]))
      | ChangeCheck entered generated \<Rightarrow>
          (if entered = generated then
             (s, [Toast ''OTP Verified'' ''Your identity has been verified successfully'' Default,
                  OnVerified])
           else
             (s\<lparr>otp := []\<rparr>,
              [Toast ''Invalid OTP''
                 ''The code you entered doesn't match. Please try again.'' Destructive,
               OnError])))"

fun fire_otp_timers :: "(nat \<times> otp_timer) list \<Rightarrow> otp_state \<Rightarrow> otp_state \<times> effect list" where
  "fire_otp_timers [] s = (s, [])"
| "fire_otp_timers ((d, t) # ts) s =
     (let (s1, fx1) = fire_otp_timer t s; (s2, fx2) = fire_otp_timers ts s1 in (s2, fx1 @ fx2))"

definition handleVerify :: "otp_state \<Rightarrow> otp_state \<times> effect list \<times> (nat \<times> otp_timer) list" where
  "handleVerify s =
     (if length (otp s) < 4 then
        (s, [Toast ''Incomplete OTP'' ''Please enter the complete 4-digit code'' Destructive], [])
      else
        (s\<lparr>otp_isVerifying := True\<rparr>, [], [(1500, VerifyCheck (otp s) (generatedOtp s))]))"

definition handleResend :: "string \<Rightarrow> otp_state \<Rightarrow> otp_state \<times> effect list" where
  "handleResend newOtp s = (let (s1, fx) = generateOTP newOtp s in (s1\<lparr>otp := []\<rparr>, fx))"

definition handleOTPChange :: "string \<Rightarrow> otp_state \<Rightarrow> otp_state \<times> (nat \<times> otp_timer) list" where
  "handleOTPChange v s =
     (s\<lparr>otp := v\<rparr>,
      if length v = 4 \<and> \<not> autoFill s then [(500, ChangeCheck v (generatedOtp s))] else [])"

text \<open>Submitting the entered code: \<open>handleVerify\<close> and then its timer.\<close>

definition submit_code :: "otp_state \<Rightarrow> otp_state \<times> effect list" where
  "submit_code s =
     (let (s1, fx1, ts) = handleVerify s; (s2, fx2) = fire_otp_timers ts s1 in (s2, fx1 @ fx2))"

section \<open>Example data\<close>

text \<open>
  The data of the specification's scenario A: voter \<open>v1\<close>, election 42 with the candidates
  101 and 102. The services of the examples answer every call with a fixed outcome and
  keep, as their ledger, the number of \<open>castVote\<close> calls they have received.
\<close>

definition candidate_101 :: Candidate where
  "candidate_101 = \<lparr>candidate_id = 101, candidate_name = ''A'', party = ''P'', voteCount = 0\<rparr>"

definition candidate_102 :: Candidate where
  "candidate_102 = \<lparr>candidate_id = 102, candidate_name = ''B'', party = ''Q'', voteCount = 0\<rparr>"

definition election_42 :: Election where
  "election_42 =
     \<lparr>election_id = 42, title = ''E'', description = ''D'', startDate = 0, endDate = 1000,
      candidates = [candidate_101, candidate_102], isActive = True\<rparr>"

definition voter_v1 :: User where
  "voter_v1 = \<lparr>user_id = ''v1''\<rparr>"

definition transaction_1 :: VoteTransaction where
  "transaction_1 =
     \<lparr>tx_transactionHash = ''0xabc'', blockNumber = 1, timestamp = 500, voter = ''v1'',
      electionId = 42, candidateId = 101\<rparr>"

definition scripted_services :: "thrown + bool \<Rightarrow> thrown + VoteTransaction \<Rightarrow> nat services" where
  "scripted_services hv cv =
     \<lparr>es_hasUserVoted = (\<lambda>l userId eId. (hv, l)),
      vs_castVote = (\<lambda>l userId eId cId. (cv, Suc l))\<rparr>"

definition empty_store :: contract_store where
  "empty_store = \<lparr>instance_field = None, contracts = Map.empty, fresh = 0\<rparr>"

definition start_world :: "nat world" where
  "start_world = \<lparr>contract = empty_store, ledger = 0\<rparr>"

text \<open>
  A state with both selections made and the step back at 1: select the election, select
  the candidate, then signal a face failure.
\<close>

definition selected_at_start :: voting_state where
  "selected_at_start =
     fst (handleFaceVerificationError
            (handleSelectCandidate candidate_101 (handleSelectElection election_42 initial_voting_state)))"

text \<open>The state of scenario A just before the vote is cast.\<close>

definition ready_to_cast :: voting_state where
  "ready_to_cast =
     (handleSelectCandidate candidate_101 (handleSelectElection election_42
        (fst (fetchElections (Inr [election_42])
           (fst (handleOTPVerificationSuccess (fst (handleFaceVerificationSuccess
              (setStep 2 initial_voting_state)))))))))"

text \<open>Services under which the lookup says no and the vote is recorded.\<close>

definition accepting_services :: "nat services" where
  "accepting_services = scripted_services (Inr False) (Inr transaction_1)"

text \<open>Services under which the lookup says no and \<open>castVote\<close> throws.\<close>

definition rejecting_services :: "nat services" where
  "rejecting_services = scripted_services (Inr False) (Inl (JsError ''AlreadyVoted''))"

text \<open>Two calls of \<open>handleCastVote\<close> in a row under the rejecting services.\<close>

definition rejected_once :: "voting_state \<times> nat world \<times> effect list" where
  "rejected_once = handleCastVote rejecting_services (Some voter_v1) start_world ready_to_cast"

definition rejected_twice :: "voting_state \<times> nat world \<times> effect list" where
  "rejected_twice =
     handleCastVote rejecting_services (Some voter_v1) (fst (snd rejected_once)) (fst rejected_once)"

section \<open>Properties of the voting workflow\<close>

lemma handleCastVote_guarded:
  "selectedElection s = None \<or> selectedCandidate s = None \<or> user = None
   \<Longrightarrow> handleCastVote svc user w s = (s, w, [])"
  by (auto simp: handleCastVote_def split: option.splits)

lemma handleCastVote_success:
  assumes "selectedElection s = Some e" "selectedCandidate s = Some c" "user = Some u"
    and "es_hasUserVoted svc (ledger w) (user_id u) (election_id e) = (Inr False, l1)"
    and "vs_castVote svc l1 (user_id u) (election_id e) (candidate_id c) = (Inr tx, l2)"
  shows "handleCastVote svc user w s =
     (s\<lparr>isLoading := True, transactionHash := Some (tx_transactionHash tx), step := 6, isLoading := False\<rparr>,
      w\<lparr>contract := snd (getInstance (contract w)), ledger := l1, ledger := l2\<rparr>,
      [CallHasUserVoted (user_id u) (election_id e),
       CallCastVote (user_id u) (election_id e) (candidate_id c),
       Toast ''Vote Cast Successfully'' ''Your vote has been recorded on the blockchain.'' Default])"
  using assms
  by (simp add: handleCastVote_def hasUserVoted_def castVote_def Let_def split: prod.splits)

lemma handleCastVote_step:
  "step (fst (handleCastVote svc user w s)) = step s \<or> step (fst (handleCastVote svc user w s)) = 6"
  by (simp add: handleCastVote_def catch_cast_error_def Let_def
      split: option.splits prod.splits sum.splits bool.splits)

lemma handleCastVote_failure:
  assumes "selectedElection s = Some e" "selectedCandidate s = Some c" "user = Some u"
    and "es_hasUserVoted svc (ledger w) (user_id u) (election_id e) = (Inr False, l1)"
    and "vs_castVote svc l1 (user_id u) (election_id e) (candidate_id c) = (Inl err, l2)"
  shows "handleCastVote svc user w s =
     (s\<lparr>isLoading := False\<rparr>,
      w\<lparr>contract := snd (getInstance (contract w)), ledger := l2\<rparr>,
      [CallHasUserVoted (user_id u) (election_id e),
       CallCastVote (user_id u) (election_id e) (candidate_id c),
       ConsoleError ''Error casting vote:'',
       Toast ''Error'' (cast_error_message err) Destructive])"
  using assms
  by (simp add: handleCastVote_def hasUserVoted_def castVote_def catch_cast_error_def Let_def
      split: prod.splits)

lemma handleCastVote_voted:
  assumes "selectedElection s = Some e" "selectedCandidate s = Some c" "user = Some u"
    and "es_hasUserVoted svc (ledger w) (user_id u) (election_id e) = (Inr True, l1)"
  shows "handleCastVote svc user w s =
     (s\<lparr>isLoading := False\<rparr>,
      w\<lparr>contract := snd (getInstance (contract w)), ledger := l1\<rparr>,
      [CallHasUserVoted (user_id u) (election_id e),
       Toast ''Already Voted'' ''You have already cast your vote in this election.'' Destructive])"
  using assms
  by (simp add: handleCastVote_def hasUserVoted_def Let_def split: prod.splits)

lemma handleCastVote_lookup_first:
  assumes "selectedElection s = Some e" "selectedCandidate s = Some c" "user = Some u"
  shows "take 1 (snd (snd (handleCastVote svc user w s))) = [CallHasUserVoted (user_id u) (election_id e)]"
  using assms
  by (simp add: handleCastVote_def hasUserVoted_def castVote_def catch_cast_error_def Let_def
      split: prod.splits sum.splits bool.splits)

lemma handleCastVote_ignores_step:
  "snd (handleCastVote svc user w (s\<lparr>step := n\<rparr>)) = snd (handleCastVote svc user w s)"
  by (simp add: handleCastVote_def catch_cast_error_def Let_def
      split: option.splits prod.splits sum.splits bool.splits)

lemma getInstance_again:
  "getInstance (snd (getInstance st)) = (fst (getInstance st), snd (getInstance st))"
  by (simp add: getInstance_def new_VotingContract_def Let_def split: option.splits)

lemma getInstance_calls_after:
  "getInstance_calls n (snd (getInstance st)) = (replicate n (fst (getInstance st)), snd (getInstance st))"
  by (induction n) (simp_all add: getInstance_again case_prod_beta)

lemma getInstance_first:
  "instance_field st = None \<Longrightarrow>
     getInstance st =
       (fresh st + 2,
        st\<lparr>contracts := (contracts st)(fresh st + 2 \<mapsto>
              \<lparr>electionService = fresh st, votingService = fresh st + 1\<rparr>),
           fresh := fresh st + 3, instance_field := Some (fresh st + 2)\<rparr>)"
  by (simp add: getInstance_def new_VotingContract_def Let_def)

lemma getInstance_later:
  "instance_field st = Some a \<Longrightarrow> getInstance st = (a, st)"
  by (simp add: getInstance_def)

lemma getInstance_sets_field:
  "instance_field (snd (getInstance st)) = Some (fst (getInstance st))"
  by (cases "instance_field st") (simp_all add: getInstance_first getInstance_later)

lemma getInstance_store_ok:
  "store_ok st \<Longrightarrow> store_ok (snd (getInstance st))
     \<and> contracts (snd (getInstance st)) (fst (getInstance st)) \<noteq> None"
  by (cases "instance_field st") (simp_all add: getInstance_first getInstance_later store_ok_def)

lemma getInstance_calls_all:
  "getInstance_calls (Suc n) st = (replicate (Suc n) (fst (getInstance st)), snd (getInstance st))"
  by (simp add: getInstance_calls_after case_prod_beta)

lemma handleCastVote_not_recorded:
  assumes "\<not> (\<exists>e c u l1 tx l2. selectedElection s = Some e \<and> selectedCandidate s = Some c
            \<and> user = Some u
            \<and> es_hasUserVoted svc (ledger w) (user_id u) (election_id e) = (Inr False, l1)
            \<and> vs_castVote svc l1 (user_id u) (election_id e) (candidate_id c) = (Inr tx, l2))"
  shows "step (fst (handleCastVote svc user w s)) = step s"
  using assms
  by (auto simp: handleCastVote_def hasUserVoted_def castVote_def catch_cast_error_def Let_def
      split: option.splits prod.splits sum.splits bool.splits)

lemma handleCastVote_recorded:
  assumes "\<exists>e c u l1 tx l2. selectedElection s = Some e \<and> selectedCandidate s = Some c
            \<and> user = Some u
            \<and> es_hasUserVoted svc (ledger w) (user_id u) (election_id e) = (Inr False, l1)
            \<and> vs_castVote svc l1 (user_id u) (election_id e) (candidate_id c) = (Inr tx, l2)"
  shows "step (fst (handleCastVote svc user w s)) = 6"
proof -
  from assms obtain e c u l1 tx l2 where h: "selectedElection s = Some e"
    "selectedCandidate s = Some c" "user = Some u"
    "es_hasUserVoted svc (ledger w) (user_id u) (election_id e) = (Inr False, l1)"
    "vs_castVote svc l1 (user_id u) (election_id e) (candidate_id c) = (Inr tx, l2)"
    by blast
  show ?thesis
    by (simp add: handleCastVote_success [OF h])
qed

lemma selected_at_start_eq:
  "selected_at_start =
     \<lparr>step = 1, isLoading = True, elections = [], selectedElection = Some election_42,
      selectedCandidate = Some candidate_101, transactionHash = None\<rparr>"
  by (simp add: selected_at_start_def initial_voting_state_def handleSelectElection_def
      handleSelectCandidate_def handleFaceVerificationError_def)

lemma ready_to_cast_eq:
  "ready_to_cast =
     \<lparr>step = 5, isLoading = False, elections = [election_42], selectedElection = Some election_42,
      selectedCandidate = Some candidate_101, transactionHash = None\<rparr>"
  by (simp add: ready_to_cast_def initial_voting_state_def handleSelectElection_def
      handleSelectCandidate_def handleFaceVerificationSuccess_def handleOTPVerificationSuccess_def
      fetchElections_def setStep_def)

section \<open>Claims about casting a vote\<close>

text \<open>
  C1, as stated, fails: \<open>handleCastVote\<close> does not look at the step. From the initial state,
  selecting an election and a candidate and then signalling a face failure gives a state
  at step 1, below Verified (step 4), with both selections made; there the call records
  the vote, stores the hash and moves to step 6.
\<close>

theorem cast_vote_ungated_counterexample:
  "step selected_at_start < 4
   \<and> step (fst (handleCastVote accepting_services (Some voter_v1) start_world selected_at_start)) = 6
   \<and> transactionHash (fst (handleCastVote accepting_services (Some voter_v1) start_world selected_at_start))
       = Some ''0xabc''
   \<and> ledger (fst (snd (handleCastVote accepting_services (Some voter_v1) start_world selected_at_start))) = 1
   \<and> snd (snd (handleCastVote accepting_services (Some voter_v1) start_world selected_at_start)) =
       [CallHasUserVoted ''v1'' 42, CallCastVote ''v1'' 42 101,
        Toast ''Vote Cast Successfully'' ''Your vote has been recorded on the blockchain.'' Default]"
proof -
  have "handleCastVote accepting_services (Some voter_v1) start_world selected_at_start =
     (selected_at_start\<lparr>isLoading := True, transactionHash := Some (tx_transactionHash transaction_1),
        step := 6, isLoading := False\<rparr>,
      start_world\<lparr>contract := snd (getInstance (contract start_world)), ledger := 0, ledger := 1\<rparr>,
      [CallHasUserVoted (user_id voter_v1) (election_id election_42),
       CallCastVote (user_id voter_v1) (election_id election_42) (candidate_id candidate_101),
       Toast ''Vote Cast Successfully'' ''Your vote has been recorded on the blockchain.'' Default])"
    by (rule handleCastVote_success)
       (simp_all add: selected_at_start_eq accepting_services_def scripted_services_def start_world_def)
  then show ?thesis
    by (simp add: selected_at_start_eq voter_v1_def election_42_def candidate_101_def transaction_1_def)
qed

text \<open>
  C1, amended: \<open>handleCastVote\<close> is gated by its own guard. Invoked while no election is
  selected, or no candidate is selected, or no user is signed in, it returns without any
  error or toast, calls neither service, and leaves the state and the world as they were.
  The step plays no part: the world and the effects of a call are the same at every step.
\<close>

theorem handleCastVote_gate:
  "(selectedElection s = None \<or> selectedCandidate s = None \<or> user = None
      \<longrightarrow> handleCastVote svc user w s = (s, w, []))
   \<and> snd (handleCastVote svc user w (s\<lparr>step := n\<rparr>)) = snd (handleCastVote svc user w s)"
  using handleCastVote_guarded [where s = s and user = user and svc = svc and w = w]
    handleCastVote_ignores_step [where s = s and user = user and svc = svc and w = w and n = n]
  by blast

theorem handleCastVote_gate_witness:
  "selectedElection initial_voting_state = None
   \<and> handleCastVote accepting_services (Some voter_v1) start_world initial_voting_state
       = (initial_voting_state, start_world, [])"
proof -
  have h: "selectedElection initial_voting_state = None"
    by (simp add: initial_voting_state_def)
  with handleCastVote_gate [where s = initial_voting_state and user = "Some voter_v1"
      and svc = accepting_services and w = start_world and n = 1]
  show ?thesis by blast
qed

text \<open>
  C2, as stated, fails for a call the guard stops: in the initial state no election is
  selected, and \<open>handleCastVote\<close> returns at once with no effect, so no lookup is made,
  although the lookup of these services would say yes.
\<close>

theorem guarded_call_no_lookup_counterexample:
  "selectedElection initial_voting_state = None
   \<and> fst (es_hasUserVoted (scripted_services (Inr True) (Inr transaction_1)) (ledger start_world)
           (user_id voter_v1) (election_id election_42)) = Inr True
   \<and> handleCastVote (scripted_services (Inr True) (Inr transaction_1)) (Some voter_v1)
        start_world initial_voting_state = (initial_voting_state, start_world, [])"
  by (simp add: handleCastVote_guarded initial_voting_state_def scripted_services_def)

text \<open>
  C2, amended: a call of \<open>handleCastVote\<close> that passes the guard (an election and a
  candidate are selected and a user is signed in) first performs the \<open>hasUserVoted\<close>
  lookup for that user and election: the effects are not empty and the lookup is the
  first of them. When the lookup says yes, the only further effect is the toast
  "Already Voted": \<open>castVote\<close> is not called, the ledger is as the lookup left it, and the
  step, the selected election, the selected candidate and the transaction hash are
  unchanged (of the state only the loading flag is reset). A call that the guard stops
  has no effect at all.
\<close>

theorem handleCastVote_already_voted:
  "(selectedElection s = None \<or> selectedCandidate s = None \<or> user = None \<longrightarrow>
       snd (snd (handleCastVote svc user w s)) = [])
   \<and> (selectedElection s = Some e \<and> selectedCandidate s = Some c \<and> user = Some u \<longrightarrow>
       take 1 (snd (snd (handleCastVote svc user w s)))
         = [CallHasUserVoted (user_id u) (election_id e)]
       \<and> (fst (es_hasUserVoted svc (ledger w) (user_id u) (election_id e)) = Inr True \<longrightarrow>
           snd (snd (handleCastVote svc user w s)) =
             [CallHasUserVoted (user_id u) (election_id e),
              Toast ''Already Voted'' ''You have already cast your vote in this election.'' Destructive]
           \<and> ledger (fst (snd (handleCastVote svc user w s)))
               = snd (es_hasUserVoted svc (ledger w) (user_id u) (election_id e))
           \<and> fst (handleCastVote svc user w s) = s\<lparr>isLoading := False\<rparr>
           \<and> step (fst (handleCastVote svc user w s)) = step s
           \<and> selectedElection (fst (handleCastVote svc user w s)) = selectedElection s
           \<and> selectedCandidate (fst (handleCastVote svc user w s)) = selectedCandidate s
           \<and> transactionHash (fst (handleCastVote svc user w s)) = transactionHash s))"
proof (intro conjI impI)
  assume "selectedElection s = None \<or> selectedCandidate s = None \<or> user = None"
  then show "snd (snd (handleCastVote svc user w s)) = []"
    by (simp add: handleCastVote_guarded)
next
  assume g: "selectedElection s = Some e \<and> selectedCandidate s = Some c \<and> user = Some u"
  then show "take 1 (snd (snd (handleCastVote svc user w s)))
         = [CallHasUserVoted (user_id u) (election_id e)]"
    using handleCastVote_lookup_first by blast
next
  assume g: "selectedElection s = Some e \<and> selectedCandidate s = Some c \<and> user = Some u"
    and yes: "fst (es_hasUserVoted svc (ledger w) (user_id u) (election_id e)) = Inr True"
  from yes have "es_hasUserVoted svc (ledger w) (user_id u) (election_id e)
      = (Inr True, snd (es_hasUserVoted svc (ledger w) (user_id u) (election_id e)))"
    by (metis prod.collapse)
  with g have r: "handleCastVote svc user w s =
     (s\<lparr>isLoading := False\<rparr>,
      w\<lparr>contract := snd (getInstance (contract w)),
         ledger := snd (es_hasUserVoted svc (ledger w) (user_id u) (election_id e))\<rparr>,
      [CallHasUserVoted (user_id u) (election_id e),
       Toast ''Already Voted'' ''You have already cast your vote in this election.'' Destructive])"
    by (simp add: handleCastVote_voted)
  show "snd (snd (handleCastVote svc user w s)) =
           [CallHasUserVoted (user_id u) (election_id e),
            Toast ''Already Voted'' ''You have already cast your vote in this election.'' Destructive]"
    and "ledger (fst (snd (handleCastVote svc user w s)))
             = snd (es_hasUserVoted svc (ledger w) (user_id u) (election_id e))"
    and "fst (handleCastVote svc user w s) = s\<lparr>isLoading := False\<rparr>"
    and "step (fst (handleCastVote svc user w s)) = step s"
    and "selectedElection (fst (handleCastVote svc user w s)) = selectedElection s"
    and "selectedCandidate (fst (handleCastVote svc user w s)) = selectedCandidate s"
    and "transactionHash (fst (handleCastVote svc user w s)) = transactionHash s"
    by (simp_all add: r)
qed

theorem handleCastVote_already_voted_witness:
  "selectedElection ready_to_cast = Some election_42
   \<and> selectedCandidate ready_to_cast = Some candidate_101
   \<and> fst (es_hasUserVoted (scripted_services (Inr True) (Inr transaction_1)) (ledger start_world)
           (user_id voter_v1) (election_id election_42)) = Inr True
   \<and> snd (snd (handleCastVote (scripted_services (Inr True) (Inr transaction_1)) (Some voter_v1)
                 start_world ready_to_cast)) =
       [CallHasUserVoted (user_id voter_v1) (election_id election_42),
        Toast ''Already Voted'' ''You have already cast your vote in this election.'' Destructive]
   \<and> ledger (fst (snd (handleCastVote (scripted_services (Inr True) (Inr transaction_1)) (Some voter_v1)
                 start_world ready_to_cast))) = 0
   \<and> step (fst (handleCastVote (scripted_services (Inr True) (Inr transaction_1)) (Some voter_v1)
                 start_world ready_to_cast)) = 5"
proof -
  have h1: "selectedElection ready_to_cast = Some election_42"
    and h2: "selectedCandidate ready_to_cast = Some candidate_101"
    and h3: "step ready_to_cast = 5"
    by (simp_all add: ready_to_cast_eq)
  have h4: "fst (es_hasUserVoted (scripted_services (Inr True) (Inr transaction_1)) (ledger start_world)
           (user_id voter_v1) (election_id election_42)) = Inr True"
    and h5: "snd (es_hasUserVoted (scripted_services (Inr True) (Inr transaction_1)) (ledger start_world)
           (user_id voter_v1) (election_id election_42)) = 0"
    by (simp_all add: scripted_services_def start_world_def)
  from handleCastVote_already_voted [where s = ready_to_cast and e = election_42
      and c = candidate_101 and user = "Some voter_v1" and u = voter_v1
      and svc = "scripted_services (Inr True) (Inr transaction_1)" and w = start_world]
    h1 h2 h3 h4 h5
  show ?thesis by simp
qed

text \<open>
  C3, as stated, fails: there is no Rejected state. When \<open>castVote\<close> throws, the state
  after the call is the state before it (step 5, same selections, no hash), and the same
  call can be made again and reaches \<open>castVote\<close> a second time.
\<close>

theorem cast_failure_not_terminal_counterexample:
  "fst (vs_castVote rejecting_services 0 ''v1'' 42 101) = Inl (JsError ''AlreadyVoted'')
   \<and> step ready_to_cast = 5
   \<and> fst rejected_once = ready_to_cast
   \<and> snd (snd rejected_twice) =
       [CallHasUserVoted ''v1'' 42, CallCastVote ''v1'' 42 101,
        ConsoleError ''Error casting vote:'', Toast ''Error'' ''AlreadyVoted'' Destructive]
   \<and> ledger (fst (snd rejected_twice)) = 2"
proof -
  have once: "rejected_once =
     (ready_to_cast\<lparr>isLoading := False\<rparr>,
      start_world\<lparr>contract := snd (getInstance (contract start_world)), ledger := 1\<rparr>,
      [CallHasUserVoted (user_id voter_v1) (election_id election_42),
       CallCastVote (user_id voter_v1) (election_id election_42) (candidate_id candidate_101),
       ConsoleError ''Error casting vote:'',
       Toast ''Error'' (cast_error_message (JsError ''AlreadyVoted'')) Destructive])"
    unfolding rejected_once_def
    by (rule handleCastVote_failure [where ?l1.0 = 0])
       (simp_all add: ready_to_cast_eq rejecting_services_def scripted_services_def start_world_def)
  have same: "ready_to_cast\<lparr>isLoading := False\<rparr> = ready_to_cast"
    by (simp add: ready_to_cast_eq)
  have twice: "rejected_twice =
     ((fst rejected_once)\<lparr>isLoading := False\<rparr>,
      (fst (snd rejected_once))\<lparr>contract := snd (getInstance (contract (fst (snd rejected_once)))),
         ledger := 2\<rparr>,
      [CallHasUserVoted (user_id voter_v1) (election_id election_42),
       CallCastVote (user_id voter_v1) (election_id election_42) (candidate_id candidate_101),
       ConsoleError ''Error casting vote:'',
       Toast ''Error'' (cast_error_message (JsError ''AlreadyVoted'')) Destructive])"
    unfolding rejected_twice_def
    by (rule handleCastVote_failure [where ?l1.0 = 1])
       (simp_all add: once same ready_to_cast_eq rejecting_services_def scripted_services_def)
  show ?thesis
    by (simp add: once twice same cast_error_message_def voter_v1_def election_42_def
        candidate_101_def rejecting_services_def scripted_services_def)
       (simp add: ready_to_cast_eq)
qed

text \<open>
  C3, amended: when \<open>castVote\<close>, called from \<open>handleCastVote\<close>, throws (AlreadyVoted or
  anything else), the handler does not call it again: the effects are the lookup, the one
  \<open>castVote\<close> call, the console line and a destructive toast "Error" with the error's
  message. The workflow does not move: the step, the selections and the hash are
  unchanged, and only the loading flag is reset.
\<close>

theorem handleCastVote_cast_failure:
  assumes "selectedElection s = Some e" and "selectedCandidate s = Some c" and "user = Some u"
    and "es_hasUserVoted svc (ledger w) (user_id u) (election_id e) = (Inr False, l1)"
    and "vs_castVote svc l1 (user_id u) (election_id e) (candidate_id c) = (Inl err, l2)"
  shows "snd (snd (handleCastVote svc user w s)) =
       [CallHasUserVoted (user_id u) (election_id e),
        CallCastVote (user_id u) (election_id e) (candidate_id c),
        ConsoleError ''Error casting vote:'',
        Toast ''Error'' (cast_error_message err) Destructive]
     \<and> ledger (fst (snd (handleCastVote svc user w s))) = l2
     \<and> fst (handleCastVote svc user w s) = s\<lparr>isLoading := False\<rparr>
     \<and> step (fst (handleCastVote svc user w s)) = step s
     \<and> selectedElection (fst (handleCastVote svc user w s)) = selectedElection s
     \<and> selectedCandidate (fst (handleCastVote svc user w s)) = selectedCandidate s
     \<and> transactionHash (fst (handleCastVote svc user w s)) = transactionHash s"
  by (simp add: handleCastVote_failure [OF assms])

theorem handleCastVote_cast_failure_witness:
  "selectedElection ready_to_cast = Some election_42
   \<and> selectedCandidate ready_to_cast = Some candidate_101
   \<and> es_hasUserVoted rejecting_services (ledger start_world) (user_id voter_v1) (election_id election_42)
       = (Inr False, 0)
   \<and> vs_castVote rejecting_services 0 (user_id voter_v1) (election_id election_42)
         (candidate_id candidate_101) = (Inl (JsError ''AlreadyVoted''), 1)
   \<and> snd (snd (handleCastVote rejecting_services (Some voter_v1) start_world ready_to_cast)) =
       [CallHasUserVoted (user_id voter_v1) (election_id election_42),
        CallCastVote (user_id voter_v1) (election_id election_42) (candidate_id candidate_101),
        ConsoleError ''Error casting vote:'',
        Toast ''Error'' ''AlreadyVoted'' Destructive]
   \<and> ledger (fst (snd (handleCastVote rejecting_services (Some voter_v1) start_world ready_to_cast))) = 1
   \<and> step (fst (handleCastVote rejecting_services (Some voter_v1) start_world ready_to_cast)) = 5"
proof -
  have h1: "selectedElection ready_to_cast = Some election_42"
    and h2: "selectedCandidate ready_to_cast = Some candidate_101"
    and h3: "step ready_to_cast = 5"
    by (simp_all add: ready_to_cast_eq)
  have h4: "es_hasUserVoted rejecting_services (ledger start_world) (user_id voter_v1)
       (election_id election_42) = (Inr False, 0)"
    and h5: "vs_castVote rejecting_services 0 (user_id voter_v1) (election_id election_42)
         (candidate_id candidate_101) = (Inl (JsError ''AlreadyVoted''), 1)"
    by (simp_all add: rejecting_services_def scripted_services_def start_world_def)
  from handleCastVote_cast_failure [OF h1 h2 refl h4 h5] h1 h2 h3 h4 h5
  show ?thesis by (simp add: cast_error_message_def)
qed

text \<open>
  C4: when the vote is cast (the guard passes, the lookup says no and \<open>castVote\<close> returns a
  transaction), the workflow is at step 6, the confirmation step, and the stored
  transaction hash is the hash of the transaction \<open>castVote\<close> returned.
\<close>

theorem handleCastVote_confirmed:
  assumes "selectedElection s = Some e" and "selectedCandidate s = Some c" and "user = Some u"
    and "es_hasUserVoted svc (ledger w) (user_id u) (election_id e) = (Inr False, l1)"
    and "vs_castVote svc l1 (user_id u) (election_id e) (candidate_id c) = (Inr tx, l2)"
  shows "step (fst (handleCastVote svc user w s)) = 6
     \<and> transactionHash (fst (handleCastVote svc user w s)) = Some (tx_transactionHash tx)
     \<and> ledger (fst (snd (handleCastVote svc user w s))) = l2"
  by (simp add: handleCastVote_success [OF assms])

theorem handleCastVote_confirmed_witness:
  "selectedElection ready_to_cast = Some election_42
   \<and> selectedCandidate ready_to_cast = Some candidate_101
   \<and> es_hasUserVoted accepting_services (ledger start_world) (user_id voter_v1) (election_id election_42)
       = (Inr False, 0)
   \<and> vs_castVote accepting_services 0 (user_id voter_v1) (election_id election_42)
         (candidate_id candidate_101) = (Inr transaction_1, 1)
   \<and> step (fst (handleCastVote accepting_services (Some voter_v1) start_world ready_to_cast)) = 6
   \<and> transactionHash (fst (handleCastVote accepting_services (Some voter_v1) start_world ready_to_cast))
       = Some ''0xabc''"
proof -
  have h1: "selectedElection ready_to_cast = Some election_42"
    and h2: "selectedCandidate ready_to_cast = Some candidate_101"
    by (simp_all add: ready_to_cast_eq)
  have h4: "es_hasUserVoted accepting_services (ledger start_world) (user_id voter_v1)
       (election_id election_42) = (Inr False, 0)"
    and h5: "vs_castVote accepting_services 0 (user_id voter_v1) (election_id election_42)
         (candidate_id candidate_101) = (Inr transaction_1, 1)"
    by (simp_all add: accepting_services_def scripted_services_def start_world_def)
  from handleCastVote_confirmed [OF h1 h2 refl h4 h5] h1 h2 h4 h5
  show ?thesis by (simp add: transaction_1_def)
qed

section \<open>Claims about the verification steps\<close>

text \<open>
  C5, as stated, fails: \<open>handleSelectElection\<close> is no factor signal, and in the initial
  state, at step 1, it moves the step to 5.
\<close>

theorem select_election_moves_step_counterexample:
  "step initial_voting_state < 4
   \<and> \<not> is_factor_signal (SelectElection election_42)
   \<and> step (fst (invoke accepting_services (Some voter_v1) (SelectElection election_42)
                   start_world initial_voting_state)) = 5
   \<and> step initial_voting_state = 1"
  by (simp add: initial_voting_state_def handleSelectElection_def)

text \<open>
  C5, amended: the step is moved by the factor signals and by three other inputs of the
  workflow, at every step, below Verified too. \<open>setStep\<close> sets the step to the value
  given and \<open>handleSelectElection\<close> sets it to 5. \<open>handleCastVote\<close> sets it to 6 exactly
  when a vote is recorded (the guard passes, the lookup says no and \<open>castVote\<close> returns a
  transaction) and leaves it as it is otherwise. \<open>handleSelectCandidate\<close> never changes
  the step. Of the factor signals, face success sets 3, face failure 1, OTP success 4,
  and OTP failure leaves the step. So an input that changes the step is a factor
  signal, \<open>setStep\<close>, \<open>handleSelectElection\<close> or a \<open>handleCastVote\<close> that records a vote.
\<close>

theorem step_movers:
  "step (fst (invoke svc user (SetStep n) w s)) = n
   \<and> step (fst (invoke svc user (SelectElection e) w s)) = 5
   \<and> step (fst (invoke svc user (SelectCandidate c) w s)) = step s
   \<and> ((\<exists>e' c' u l1 tx l2. selectedElection s = Some e' \<and> selectedCandidate s = Some c'
              \<and> user = Some u
              \<and> es_hasUserVoted svc (ledger w) (user_id u) (election_id e') = (Inr False, l1)
              \<and> vs_castVote svc l1 (user_id u) (election_id e') (candidate_id c') = (Inr tx, l2))
        \<longrightarrow> step (fst (invoke svc user CastVote w s)) = 6)
   \<and> (\<not> (\<exists>e' c' u l1 tx l2. selectedElection s = Some e' \<and> selectedCandidate s = Some c'
              \<and> user = Some u
              \<and> es_hasUserVoted svc (ledger w) (user_id u) (election_id e') = (Inr False, l1)
              \<and> vs_castVote svc l1 (user_id u) (election_id e') (candidate_id c') = (Inr tx, l2))
        \<longrightarrow> step (fst (invoke svc user CastVote w s)) = step s)
   \<and> step (fst (invoke svc user FaceVerificationSuccess w s)) = 3
   \<and> step (fst (invoke svc user FaceVerificationError w s)) = 1
   \<and> step (fst (invoke svc user OTPVerificationSuccess w s)) = 4
   \<and> step (fst (invoke svc user OTPVerificationError w s)) = step s
   \<and> (step (fst (invoke svc user inp w s)) \<noteq> step s \<longrightarrow>
        is_factor_signal inp
        \<or> inp = SetStep (step (fst (invoke svc user inp w s)))
        \<or> ((\<exists>e'. inp = SelectElection e') \<and> step (fst (invoke svc user inp w s)) = 5)
        \<or> (inp = CastVote \<and> step (fst (invoke svc user inp w s)) = 6
            \<and> (\<exists>e' c' u l1 tx l2. selectedElection s = Some e' \<and> selectedCandidate s = Some c'
              \<and> user = Some u
              \<and> es_hasUserVoted svc (ledger w) (user_id u) (election_id e') = (Inr False, l1)
              \<and> vs_castVote svc l1 (user_id u) (election_id e') (candidate_id c') = (Inr tx, l2))))"
proof (intro conjI impI)
  assume "(\<exists>e' c' u l1 tx l2. selectedElection s = Some e' \<and> selectedCandidate s = Some c'
              \<and> user = Some u
              \<and> es_hasUserVoted svc (ledger w) (user_id u) (election_id e') = (Inr False, l1)
              \<and> vs_castVote svc l1 (user_id u) (election_id e') (candidate_id c') = (Inr tx, l2))"
  then show "step (fst (invoke svc user CastVote w s)) = 6"
    unfolding invoke.simps by (rule handleCastVote_recorded)
next
  assume "\<not> (\<exists>e' c' u l1 tx l2. selectedElection s = Some e' \<and> selectedCandidate s = Some c'
              \<and> user = Some u
              \<and> es_hasUserVoted svc (ledger w) (user_id u) (election_id e') = (Inr False, l1)
              \<and> vs_castVote svc l1 (user_id u) (election_id e') (candidate_id c') = (Inr tx, l2))"
  then show "step (fst (invoke svc user CastVote w s)) = step s"
    unfolding invoke.simps by (rule handleCastVote_not_recorded)
next
  assume moved: "step (fst (invoke svc user inp w s)) \<noteq> step s"
  show "is_factor_signal inp
        \<or> inp = SetStep (step (fst (invoke svc user inp w s)))
        \<or> ((\<exists>e'. inp = SelectElection e') \<and> step (fst (invoke svc user inp w s)) = 5)
        \<or> (inp = CastVote \<and> step (fst (invoke svc user inp w s)) = 6
            \<and> (\<exists>e' c' u l1 tx l2. selectedElection s = Some e' \<and> selectedCandidate s = Some c'
              \<and> user = Some u
              \<and> es_hasUserVoted svc (ledger w) (user_id u) (election_id e') = (Inr False, l1)
              \<and> vs_castVote svc l1 (user_id u) (election_id e') (candidate_id c') = (Inr tx, l2)))"
  proof (cases inp)
    case (SetStep k)
    then show ?thesis by (simp add: setStep_def)
  next
    case (SelectElection e')
    then show ?thesis by (simp add: handleSelectElection_def)
  next
    case (SelectCandidate c')
    with moved show ?thesis by (simp add: handleSelectCandidate_def)
  next
    case CastVote
    with moved have m: "step (fst (handleCastVote svc user w s)) \<noteq> step s" by simp
    have rec: "(\<exists>e' c' u l1 tx l2. selectedElection s = Some e' \<and> selectedCandidate s = Some c'
              \<and> user = Some u
              \<and> es_hasUserVoted svc (ledger w) (user_id u) (election_id e') = (Inr False, l1)
              \<and> vs_castVote svc l1 (user_id u) (election_id e') (candidate_id c') = (Inr tx, l2))"
      using m handleCastVote_not_recorded [of s user svc w] by blast
    then have "step (fst (handleCastVote svc user w s)) = 6"
      by (rule handleCastVote_recorded)
    then have "step (fst (invoke svc user inp w s)) = 6"
      using CastVote by simp
    with rec CastVote show ?thesis by blast
  qed simp_all
qed (simp_all add: setStep_def handleSelectElection_def handleSelectCandidate_def
      handleFaceVerificationSuccess_def handleFaceVerificationError_def
      handleOTPVerificationSuccess_def handleOTPVerificationError_def)

theorem step_movers_witness:
  "step (fst (invoke accepting_services (Some voter_v1) (SelectElection election_42)
                start_world initial_voting_state)) \<noteq> step initial_voting_state
   \<and> \<not> is_factor_signal (SelectElection election_42)
   \<and> step (fst (invoke accepting_services (Some voter_v1) (SelectElection election_42)
                start_world initial_voting_state)) = 5
   \<and> step (fst (invoke accepting_services (Some voter_v1) CastVote start_world ready_to_cast)) = 6
   \<and> step ready_to_cast = 5
   \<and> step (fst (invoke rejecting_services (Some voter_v1) CastVote start_world ready_to_cast)) = 5"
proof -
  have five: "step (fst (invoke accepting_services (Some voter_v1) (SelectElection election_42)
                start_world initial_voting_state)) = 5"
    using step_movers [where svc = accepting_services and user = "Some voter_v1"
      and w = start_world and s = initial_voting_state and e = election_42]
    by blast
  have one: "step initial_voting_state = 1"
    by (simp add: initial_voting_state_def)
  have r5: "step ready_to_cast = 5"
    by (simp add: ready_to_cast_eq)
  have rec: "\<exists>e' c' u l1 tx l2. selectedElection ready_to_cast = Some e'
        \<and> selectedCandidate ready_to_cast = Some c' \<and> Some voter_v1 = Some u
        \<and> es_hasUserVoted accepting_services (ledger start_world) (user_id u) (election_id e') = (Inr False, l1)
        \<and> vs_castVote accepting_services l1 (user_id u) (election_id e') (candidate_id c') = (Inr tx, l2)"
    by (simp add: ready_to_cast_eq accepting_services_def scripted_services_def)
  have norec: "\<not> (\<exists>e' c' u l1 tx l2. selectedElection ready_to_cast = Some e'
        \<and> selectedCandidate ready_to_cast = Some c' \<and> Some voter_v1 = Some u
        \<and> es_hasUserVoted rejecting_services (ledger start_world) (user_id u) (election_id e') = (Inr False, l1)
        \<and> vs_castVote rejecting_services l1 (user_id u) (election_id e') (candidate_id c') = (Inr tx, l2))"
    by (simp add: rejecting_services_def scripted_services_def)
  have six: "step (fst (invoke accepting_services (Some voter_v1) CastVote start_world ready_to_cast)) = 6"
    using step_movers [where svc = accepting_services and user = "Some voter_v1"
      and w = start_world and s = ready_to_cast] rec
    by blast
  have stay: "step (fst (invoke rejecting_services (Some voter_v1) CastVote start_world ready_to_cast))
      = step ready_to_cast"
    using step_movers [where svc = rejecting_services and user = "Some voter_v1"
      and w = start_world and s = ready_to_cast] norec
    by blast
  from five one six stay r5 show ?thesis
    by (simp del: invoke.simps)
qed

text \<open>
  C6: the face failure signal \<open>handleFaceVerificationError\<close> sets the step to 1, the step of
  the initial state, and changes nothing else; the OTP failure signal
  \<open>handleOTPVerificationError\<close> leaves the whole state as it is, so a session at the OTP
  step 3 stays there. Neither touches the selections, the elections or the hash.
\<close>

theorem failure_signals_return_to_entry:
  "fst (handleFaceVerificationError s) = s\<lparr>step := 1\<rparr>
   \<and> step (fst (handleFaceVerificationError s)) = step initial_voting_state
   \<and> fst (handleOTPVerificationError s) = s
   \<and> step (fst (handleOTPVerificationError (s\<lparr>step := 3\<rparr>))) = 3"
  by (simp add: handleFaceVerificationError_def handleOTPVerificationError_def
      initial_voting_state_def)

section \<open>Claims about the singleton\<close>

text \<open>
  C10: every call of \<open>getInstance\<close> returns the one instance the static field points
  at. After a call the static field holds the address returned; a second call returns
  the same address and leaves the store as it is; any number of calls in a row all
  return what the first returns. When the field is unset, the first call builds the
  instance: a new contract at a new address, holding a new ElectionService and a new
  VotingService, and every later call returns that contract with those two services.
  When the field is set, the call returns its address and leaves the store. In a store
  that is in order the address returned always holds a contract, and the store stays
  in order.
\<close>

theorem getInstance_idempotent:
  "instance_field (snd (getInstance st)) = Some (fst (getInstance st))
   \<and> getInstance (snd (getInstance st)) = getInstance st
   \<and> getInstance_calls (Suc n) st = (replicate (Suc n) (fst (getInstance st)), snd (getInstance st))
   \<and> (instance_field st = None \<longrightarrow>
        fst (getInstance st) = fresh st + 2
        \<and> contracts (snd (getInstance st)) (fst (getInstance st))
            = Some \<lparr>electionService = fresh st, votingService = fresh st + 1\<rparr>
        \<and> contracts (snd (getInstance_calls (Suc n) st)) (fst (getInstance st))
            = Some \<lparr>electionService = fresh st, votingService = fresh st + 1\<rparr>
        \<and> fresh (snd (getInstance st)) = fresh st + 3)
   \<and> (instance_field st = Some a \<longrightarrow> getInstance st = (a, st))
   \<and> (store_ok st \<longrightarrow>
        store_ok (snd (getInstance st))
        \<and> contracts (snd (getInstance st)) (fst (getInstance st)) \<noteq> None
        \<and> contracts (snd (getInstance_calls (Suc n) st)) (fst (getInstance st))
            = contracts (snd (getInstance st)) (fst (getInstance st)))"
proof (intro conjI impI)
  show "instance_field (snd (getInstance st)) = Some (fst (getInstance st))"
    by (rule getInstance_sets_field)
  show "getInstance (snd (getInstance st)) = getInstance st"
    by (simp add: getInstance_again)
  show "getInstance_calls (Suc n) st = (replicate (Suc n) (fst (getInstance st)), snd (getInstance st))"
    by (rule getInstance_calls_all)
next
  assume none: "instance_field st = None"
  show "fst (getInstance st) = fresh st + 2"
    and "contracts (snd (getInstance st)) (fst (getInstance st))
            = Some \<lparr>electionService = fresh st, votingService = fresh st + 1\<rparr>"
    and "fresh (snd (getInstance st)) = fresh st + 3"
    by (simp_all add: getInstance_first [OF none])
  then show "contracts (snd (getInstance_calls (Suc n) st)) (fst (getInstance st))
            = Some \<lparr>electionService = fresh st, votingService = fresh st + 1\<rparr>"
    by (simp only: getInstance_calls_all snd_conv)
next
  assume "instance_field st = Some a"
  then show "getInstance st = (a, st)" by (rule getInstance_later)
next
  assume ok: "store_ok st"
  show "store_ok (snd (getInstance st))"
    and "contracts (snd (getInstance st)) (fst (getInstance st)) \<noteq> None"
    using getInstance_store_ok [OF ok] by simp_all
  show "contracts (snd (getInstance_calls (Suc n) st)) (fst (getInstance st))
            = contracts (snd (getInstance st)) (fst (getInstance st))"
    by (simp only: getInstance_calls_all snd_conv)
qed

theorem getInstance_idempotent_witness:
  "instance_field empty_store = None
   \<and> store_ok empty_store
   \<and> getInstance_calls (Suc 2) empty_store = ([2, 2, 2], snd (getInstance empty_store))
   \<and> instance_field (snd (getInstance empty_store)) = Some 2
   \<and> contracts (snd (getInstance_calls (Suc 2) empty_store)) 2
       = Some \<lparr>electionService = 0, votingService = 1\<rparr>
   \<and> getInstance (snd (getInstance empty_store)) = (2, snd (getInstance empty_store))"
proof -
  have none: "instance_field empty_store = None" and ok: "store_ok empty_store"
    and fr: "fresh empty_store = 0"
    by (simp_all add: empty_store_def store_ok_def)
  note t = getInstance_idempotent [where st = empty_store and n = 2 and a = 2]
  from t none have a: "fst (getInstance empty_store) = 2" by (simp add: fr)
  from t have field: "instance_field (snd (getInstance empty_store)) = Some (fst (getInstance empty_store))"
    by blast
  from t have calls: "getInstance_calls (Suc 2) empty_store
      = (replicate (Suc 2) (fst (getInstance empty_store)), snd (getInstance empty_store))"
    by blast
  from t none have c: "contracts (snd (getInstance_calls (Suc 2) empty_store)) (fst (getInstance empty_store))
            = Some \<lparr>electionService = fresh empty_store, votingService = fresh empty_store + 1\<rparr>"
    by blast
  from t have again: "getInstance (snd (getInstance empty_store)) = getInstance empty_store"
    by blast
  have pair: "getInstance empty_store = (2, snd (getInstance empty_store))"
    using a by (metis prod.collapse)
  show ?thesis
    using none ok a field calls c again pair
    by (simp add: fr numeral_3_eq_3 del: getInstance_calls.simps)
qed

section \<open>Claims about face verification\<close>

lemma fetchUserFace_reference_nonempty:
  "referenceImage s \<noteq> Some [] \<Longrightarrow> referenceImage (fst (fetchUserFace user res s)) \<noteq> Some []"
  by (auto simp: fetchUserFace_def truthy_def split: option.splits query_result.splits)

lemma verifyFace_no_user:
  "verifyFace fl None img r1 r2 s =
     (if verified (simulateFaceComparison fl img (referenceImage s) r1 r2) then
        (s\<lparr>isVerifying := True, verificationStatus := Success\<rparr>,
         [Toast ''Face Verified'' ''Your identity has been successfully verified.'' Default],
         [(1500, InvokeOnVerified)])
      else
        (s\<lparr>isVerifying := True, verificationStatus := Failure\<rparr>,
         [Toast ''Verification Failed''
            ''Face doesn't match our records. Please try again.'' Destructive],
         [(2000, ResetCapture)]))"
  by (simp add: verifyFace_def Let_def)

text \<open>
  C7, as stated, fails: the reference-missing branch of \<open>verifyFace\<close> is taken only when a
  user is signed in. With no reference image and no user, the simulated comparison runs
  at its 80 percent rate; with a draw of one half the attempt shows "Face Verified" and
  \<open>onVerified\<close> is invoked.
\<close>

theorem no_reference_no_user_counterexample:
  "\<not> truthy (referenceImage initial_face_state)
   \<and> snd (face_attempt id None ''img'' (1 / 2) 0 initial_face_state) =
       [Toast ''Face Verified'' ''Your identity has been successfully verified.'' Default, OnVerified]"
  by (simp add: face_attempt_def verifyFace_def simulateFaceComparison_def truthy_def
      initial_face_state_def fire_face_timer_def double_0_8_def Let_def)

text \<open>
  C7, amended: for every face-verification attempt made by a signed-in user when no
  reference image is loaded, the attempt shows the toast "Reference Image Missing", sets the
  status to error, sets only the timer that resets the capture, and \<open>onVerified\<close> is
  not invoked, whatever the captured image and the random draws.
\<close>

theorem verifyFace_reference_missing:
  assumes "\<not> truthy (referenceImage s)" and "user = Some u"
  shows "verifyFace fl user img r1 r2 s =
       (s\<lparr>isVerifying := True, verificationStatus := Failure\<rparr>,
        [Toast ''Reference Image Missing''
           ''No reference face image found. Please complete registration first.'' Destructive],
        [(2000, ResetCapture)])
     \<and> snd (face_attempt fl user img r1 r2 s) =
        [Toast ''Reference Image Missing''
           ''No reference face image found. Please complete registration first.'' Destructive]
     \<and> OnVerified \<notin> set (snd (face_attempt fl user img r1 r2 s))
     \<and> verificationStatus (fst (face_attempt fl user img r1 r2 s)) = Idle"
  using assms
  by (simp add: face_attempt_def verifyFace_def fire_face_timer_def Let_def)

theorem verifyFace_reference_missing_witness:
  "\<not> truthy (referenceImage initial_face_state)
   \<and> snd (face_attempt id (Some voter_v1) ''img'' (1 / 2) 0 initial_face_state) =
        [Toast ''Reference Image Missing''
           ''No reference face image found. Please complete registration first.'' Destructive]
   \<and> OnVerified \<notin> set (snd (face_attempt id (Some voter_v1) ''img'' (1 / 2) 0 initial_face_state))"
proof -
  have h: "\<not> truthy (referenceImage initial_face_state)"
    by (simp add: truthy_def initial_face_state_def)
  from verifyFace_reference_missing [OF h refl, where fl = id and img = "''img''"
      and ?r1.0 = "1 / 2" and ?r2.0 = 0 and u = voter_v1] h
  show ?thesis by simp
qed

text \<open>
  C9: the result of \<open>simulateFaceComparison\<close> depends on the images only through the test
  whether the reference is present (not null and not empty, the test the code makes). Two
  calls that agree on that test and on the draws return the same result, with the same
  \<open>verified\<close>, whatever the captured and the reference image are.
\<close>

theorem simulateFaceComparison_ignores_images:
  assumes "truthy ref1 = truthy ref2"
  shows "verified (simulateFaceComparison fl img1 ref1 r1 r2)
           = verified (simulateFaceComparison fl img2 ref2 r1 r2)
     \<and> simulateFaceComparison fl img1 ref1 r1 r2 = simulateFaceComparison fl img2 ref2 r1 r2"
  using assms by (simp add: simulateFaceComparison_def)

theorem simulateFaceComparison_ignores_images_witness:
  "truthy (Some ''ref-a'') = truthy (Some ''ref-b'')
   \<and> verified (simulateFaceComparison id ''img-a'' (Some ''ref-a'') (3 / 4) 0)
       = verified (simulateFaceComparison id ''img-b'' (Some ''ref-b'') (3 / 4) 0)
   \<and> \<not> verified (simulateFaceComparison id ''img-a'' (Some ''ref-a'') (3 / 4) 0)"
proof -
  have h: "truthy (Some ''ref-a'') = truthy (Some ''ref-b'')"
    by (simp add: truthy_def)
  have v: "\<not> verified (simulateFaceComparison id ''img-a'' (Some ''ref-a'') (3 / 4) 0)"
    by (simp add: simulateFaceComparison_def truthy_def double_0_7_def Let_def)
  from simulateFaceComparison_ignores_images [OF h, where fl = id and ?img1.0 = "''img-a''"
      and ?img2.0 = "''img-b''" and ?r1.0 = "3 / 4" and ?r2.0 = 0] h v
  show ?thesis by blast
qed

section \<open>Claims about the one-time code\<close>

text \<open>
  C8: for every entered code of full length (four characters or more; the input field
  holds at most four), submitting it invokes \<open>onVerified\<close> exactly when the entered code
  equals the generated code; otherwise it invokes \<open>onError\<close> and the entered code is
  cleared.
\<close>

theorem submit_code_correct_iff:
  assumes "4 \<le> length (otp s)"
  shows "(OnVerified \<in> set (snd (submit_code s)) \<longleftrightarrow> otp s = generatedOtp s)
     \<and> (OnError \<in> set (snd (submit_code s)) \<longleftrightarrow> otp s \<noteq> generatedOtp s)
     \<and> (otp s \<noteq> generatedOtp s \<longrightarrow> otp (fst (submit_code s)) = [])
     \<and> (otp s = generatedOtp s \<longrightarrow> otp (fst (submit_code s)) = otp s)"
  using assms
  by (simp add: submit_code_def handleVerify_def fire_otp_timer_def Let_def)

theorem submit_code_correct_iff_witness:
  "4 \<le> length (otp (initial_otp_state\<lparr>otp := ''1234'', generatedOtp := ''1234''\<rparr>))
   \<and> OnVerified \<in> set (snd (submit_code (initial_otp_state\<lparr>otp := ''1234'', generatedOtp := ''1234''\<rparr>)))
   \<and> 4 \<le> length (otp (initial_otp_state\<lparr>otp := ''1235'', generatedOtp := ''1234''\<rparr>))
   \<and> OnVerified \<notin> set (snd (submit_code (initial_otp_state\<lparr>otp := ''1235'', generatedOtp := ''1234''\<rparr>)))
   \<and> OnError \<in> set (snd (submit_code (initial_otp_state\<lparr>otp := ''1235'', generatedOtp := ''1234''\<rparr>)))
   \<and> otp (fst (submit_code (initial_otp_state\<lparr>otp := ''1235'', generatedOtp := ''1234''\<rparr>))) = []"
proof -
  have a: "4 \<le> length (otp (initial_otp_state\<lparr>otp := ''1234'', generatedOtp := ''1234''\<rparr>))"
    and b: "4 \<le> length (otp (initial_otp_state\<lparr>otp := ''1235'', generatedOtp := ''1234''\<rparr>))"
    by simp_all
  from submit_code_correct_iff [OF a] submit_code_correct_iff [OF b] a b
  show ?thesis by simp
qed

end
